theory Spec2Isabelle
  imports Main
begin

section \<open>Strings of the client code\<close>

text \<open>
  A TypeScript string is a sequence of UTF-16 code units. Every literal of the modelled
  code lies in the Latin-1 range, so one code unit is one \<^typ>\<open>char\<close> here and the
  accented letters of the Portuguese messages are written by their code unit
  (\<open>0xE1\<close> is a-acute, \<open>0xE3\<close> a-tilde, \<open>0xE7\<close> c-cedilla, \<open>0xEA\<close> e-circumflex,
  \<open>0xED\<close> i-acute, \<open>0xF3\<close> o-acute). The test \<open>!s\<close> on a string is \<open>s = []\<close>.
\<close>

type_synonym uuid = string

fun startsWith :: "string \<Rightarrow> string \<Rightarrow> bool" where
  "startsWith s [] = True"
| "startsWith [] (p # ps) = False"
| "startsWith (c # cs) (p # ps) = (c = p \<and> startsWith cs ps)"

text \<open>\<open>String.prototype.includes\<close>: the pattern occurs at some position of the string.\<close>

fun str_includes :: "string \<Rightarrow> string \<Rightarrow> bool" where
  "str_includes [] pat = (pat = [])"
| "str_includes (c # cs) pat = (startsWith (c # cs) pat \<or> str_includes cs pat)"

text \<open>\<open>a || b\<close> on a nullable string: \<open>null\<close> and the empty string are both falsy.\<close>

definition or_else :: "string option \<Rightarrow> string \<Rightarrow> string" where
  "or_else a b = (case a of None \<Rightarrow> b | Some s \<Rightarrow> if s = [] then b else s)"

text \<open>\<open>a || null\<close> on a string.\<close>

definition or_null :: "string \<Rightarrow> string option" where
  "or_null s = (if s = [] then None else Some s)"

section \<open>Effects\<close>

text \<open>
  Everything a handler does besides updating its component state is recorded, in order,
  as a list of effects: a client created for the user's own store and a query sent to
  it, a request sent to the primary store (with its payload), a console line, and a
  toast (title, description, and whether the variant is \<open>destructive\<close>).
\<close>

datatype effect =
    CreateClient string string
  | ExternalQuery string
  | ProfilesUpdate uuid "string option" "string option"
  | MetaCredentialsUpdate uuid string "string option" string
  | MetaCredentialsInsert uuid string "string option" string
  | WebhookUrlsInsert uuid string bool
  | WebhookUrlsDelete uuid
  | ProfilesSelectAll
  | WebhookUrlsSelectAll
  | Console string
  | Toast string string bool

fun is_network_call :: "effect \<Rightarrow> bool" where
  "is_network_call (CreateClient _ _) = True"
| "is_network_call (ExternalQuery _) = True"
| "is_network_call _ = False"

fun is_store_call :: "effect \<Rightarrow> bool" where
  "is_store_call (ProfilesUpdate _ _ _) = True"
| "is_store_call (MetaCredentialsUpdate _ _ _ _) = True"
| "is_store_call (MetaCredentialsInsert _ _ _ _) = True"
| "is_store_call (WebhookUrlsInsert _ _ _) = True"
| "is_store_call (WebhookUrlsDelete _) = True"
| "is_store_call ProfilesSelectAll = True"
| "is_store_call WebhookUrlsSelectAll = True"
| "is_store_call _ = False"

fun is_toast :: "effect \<Rightarrow> bool" where
  "is_toast (Toast _ _ _) = True"
| "is_toast _ = False"

section \<open>The primary store\<close>

subsection \<open>Tables\<close>

text \<open>
  The rows carry the columns the modelled code reads or writes. \<open>user_roles\<close> is the
  table of the migration; its \<open>id\<close> and \<open>created_at\<close> columns are read by nothing here.
\<close>

datatype app_role = role_admin | role_user

record user_roles_row =
  ur_user_id :: uuid
  ur_role :: app_role

record profiles_row =
  p_id :: uuid
  p_email :: "string option"
  client_supabase_url :: "string option"
  client_supabase_key :: "string option"

record meta_credentials_row =
  mc_user_id :: uuid
  mc_pixel_id :: string
  mc_page_id :: "string option"
  mc_access_token :: string

record webhook_urls_row =
  wh_id :: uuid
  wh_user_id :: uuid
  wh_webhook_url :: string
  wh_created_at :: "string option"
  created_by_admin :: bool

record store =
  profiles :: "profiles_row list"
  meta_credentials :: "meta_credentials_row list"
  webhook_urls :: "webhook_urls_row list"
  user_roles :: "user_roles_row list"

subsection \<open>Role policy\<close>

text \<open>
  \<open>has_role(_user_id, _role)\<close> is \<open>SELECT EXISTS (SELECT 1 FROM user_roles WHERE user_id =
  _user_id AND role = _role)\<close>. An argument may be \<open>NULL\<close> (\<open>auth.uid()\<close> of a caller with
  no session), written \<open>None\<close>; a comparison with \<open>NULL\<close> is not true, so no row passes the
  \<open>WHERE\<close> clause then. The body has no construct that fails: the result is a Boolean.
\<close>

definition has_role :: "user_roles_row list \<Rightarrow> uuid option \<Rightarrow> app_role option \<Rightarrow> bool" where
  "has_role rows arg_user_id arg_role =
     list_ex (\<lambda>r. Some (ur_user_id r) = arg_user_id \<and> Some (ur_role r) = arg_role) rows"

subsection \<open>Row-level policies of \<open>webhook_urls\<close>\<close>

text \<open>
  The policies of the migration, evaluated for the session user \<open>auth.uid()\<close>:
  \<open>SELECT USING (auth.uid() = user_id OR has_role(auth.uid(), 'admin'))\<close>,
  \<open>INSERT WITH CHECK (has_role(auth.uid(), 'admin'))\<close> and
  \<open>DELETE USING (has_role(auth.uid(), 'admin'))\<close>.
\<close>

definition webhook_select_policy :: "store \<Rightarrow> uuid option \<Rightarrow> webhook_urls_row \<Rightarrow> bool" where
  "webhook_select_policy db uid row =
     (uid = Some (wh_user_id row) \<or> has_role (user_roles db) uid (Some role_admin))"

definition webhook_insert_policy :: "store \<Rightarrow> uuid option \<Rightarrow> bool" where
  "webhook_insert_policy db uid = has_role (user_roles db) uid (Some role_admin)"

definition webhook_delete_policy :: "store \<Rightarrow> uuid option \<Rightarrow> bool" where
  "webhook_delete_policy db uid = has_role (user_roles db) uid (Some role_admin)"

text \<open>
  The message of the store when a new row fails the \<open>WITH CHECK\<close> clause. Its wording
  is the store's, not the repository's; nothing below depends on it.
\<close>

definition rls_violation :: string where
  "rls_violation = ''new row violates row-level security policy''"

text \<open>
  \<open>select * from webhook_urls\<close>: the rows the policy lets the caller see, in table order
  (an \<open>ORDER BY\<close> is applied by the caller of this function).
\<close>

definition select_webhook_urls :: "store \<Rightarrow> uuid option \<Rightarrow> webhook_urls_row list" where
  "select_webhook_urls db uid = filter (webhook_select_policy db uid) (webhook_urls db)"

text \<open>
  \<open>insert(...).select().single()\<close>: the store fills \<open>id\<close> and \<open>created_at\<close> (its defaults,
  given here as \<open>new_id\<close> and \<open>now\<close>) and returns the new row, or refuses the row and
  changes nothing.
\<close>

definition insert_webhook_urls ::
  "uuid option \<Rightarrow> uuid \<Rightarrow> string option \<Rightarrow> uuid \<Rightarrow> string \<Rightarrow> bool \<Rightarrow> store
     \<Rightarrow> (string + webhook_urls_row) \<times> store" where
  "insert_webhook_urls uid new_id now user_id url by_admin db =
     (if webhook_insert_policy db uid
      then (let row = \<lparr>wh_id = new_id, wh_user_id = user_id, wh_webhook_url = url,
                        wh_created_at = now, created_by_admin = by_admin\<rparr>
            in (Inr row, db\<lparr>webhook_urls := webhook_urls db @ [row]\<rparr>))
      else (Inl rls_violation, db))"

text \<open>
  \<open>delete().eq('id', webhookId)\<close>: the rows with this id that the policy lets the caller
  delete are removed; a row the policy hides is skipped without an error.
\<close>

definition delete_webhook_urls :: "uuid option \<Rightarrow> uuid \<Rightarrow> store \<Rightarrow> store" where
  "delete_webhook_urls uid webhookId db =
     db\<lparr>webhook_urls :=
          filter (\<lambda>r. \<not> (wh_id r = webhookId \<and> webhook_delete_policy db uid)) (webhook_urls db)\<rparr>"

subsection \<open>Requests on \<open>profiles\<close> and \<open>meta_credentials\<close>\<close>

text \<open>
  Every request of a handler comes back with an \<open>error\<close> field. A request can fail for a
  reason outside the store's tables (the network, an expired session): \<open>fault\<close> is that
  answer, \<open>Some message\<close> when the request fails and changes nothing, \<open>None\<close> when the
  store runs the statement. The handlers address only rows of the signed-in user, which
  the owner-keyed policies of these two tables (declared outside the sources) let
  through.

  \<open>update({client_supabase_url, client_supabase_key}).eq('id', uid)\<close> on \<open>profiles\<close>.
\<close>

definition update_profiles ::
  "string option \<Rightarrow> uuid \<Rightarrow> string option \<Rightarrow> string option \<Rightarrow> store \<Rightarrow> string option \<times> store" where
  "update_profiles fault uid url key db =
     (case fault of
        Some m \<Rightarrow> (Some m, db)
      | None \<Rightarrow>
          (None, db\<lparr>profiles :=
                    map (\<lambda>p. if p_id p = uid
                             then p\<lparr>client_supabase_url := url, client_supabase_key := key\<rparr>
                             else p) (profiles db)\<rparr>))"

text \<open>\<open>update({pixel_id, page_id, access_token}).eq('user_id', uid)\<close> on \<open>meta_credentials\<close>.\<close>

definition update_meta_credentials ::
  "string option \<Rightarrow> uuid \<Rightarrow> string \<Rightarrow> string option \<Rightarrow> string \<Rightarrow> store \<Rightarrow> string option \<times> store" where
  "update_meta_credentials fault uid pixel page token db =
     (case fault of
        Some m \<Rightarrow> (Some m, db)
      | None \<Rightarrow>
          (None, db\<lparr>meta_credentials :=
                    map (\<lambda>r. if mc_user_id r = uid
                             then r\<lparr>mc_pixel_id := pixel, mc_page_id := page, mc_access_token := token\<rparr>
                             else r) (meta_credentials db)\<rparr>))"

text \<open>
  Modelled from the spec: the declaration of the table \<open>meta_credentials\<close> is not among the
  sources; the data model gives \<open>user_id\<close> as unique (one credential set per user), so
  an insert for a user who has a row is refused by the store and changes nothing.
\<close>

definition duplicate_key :: string where
  "duplicate_key = ''duplicate key value violates unique constraint''"

definition insert_meta_credentials ::
  "string option \<Rightarrow> uuid \<Rightarrow> string \<Rightarrow> string option \<Rightarrow> string \<Rightarrow> store \<Rightarrow> string option \<times> store" where
  "insert_meta_credentials fault uid pixel page token db =
     (case fault of
        Some m \<Rightarrow> (Some m, db)
      | None \<Rightarrow>
          (if list_ex (\<lambda>r. mc_user_id r = uid) (meta_credentials db)
           then (Some duplicate_key, db)
           else (None, db\<lparr>meta_credentials :=
                         meta_credentials db @
                           [\<lparr>mc_user_id = uid, mc_pixel_id = pixel, mc_page_id = page,
                             mc_access_token = token\<rparr>]\<rparr>)))"

section \<open>The component \<open>ClientSupabaseConfig\<close>\<close>

subsection \<open>State\<close>

datatype ConnectionStatus = disconnected | connecting | connected | error

record ClientSupabaseCredentials =
  url :: string
  key :: string

text \<open>
  The state variables of the component. A handler reads the values of the render that
  created it and its \<open>set...\<close> calls give the state of the next render, so a handler is
  a function from the state it read to the state it leaves behind.
\<close>

record csc_state =
  csc_credentials :: ClientSupabaseCredentials
  showKey :: bool
  csc_isSaving :: bool
  connectionStatus :: ConnectionStatus
  connectionError :: "string option"
  hasExistingConfig :: bool

definition csc_initial :: csc_state where
  "csc_initial =
     \<lparr>csc_credentials = \<lparr>url = [], key = []\<rparr>, showKey = False, csc_isSaving = False,
      connectionStatus = disconnected, connectionError = None, hasExistingConfig = False\<rparr>"

subsection \<open>Messages\<close>

definition msg_invalid_url :: string where
  "msg_invalid_url = ''Formato de URL inv'' @ [CHR 0xE1] @ ''lido. Use: https://xxxxx.supabase.co''"

definition msg_invalid_key :: string where
  "msg_invalid_key = ''Chave de API inv'' @ [CHR 0xE1] @ ''lida''"

definition msg_cannot_connect :: string where
  "msg_cannot_connect = ''N'' @ [CHR 0xE3] @ ''o foi poss'' @ [CHR 0xED] @ ''vel conectar ao Supabase.''"

definition title_campos_obrigatorios :: string where
  "title_campos_obrigatorios = ''Campos obrigat'' @ [CHR 0xF3] @ ''rios''"

definition title_falha_na_conexao :: string where
  "title_falha_na_conexao = ''Falha na conex'' @ [CHR 0xE3] @ ''o''"

definition toast_preencha :: effect where
  "toast_preencha = Toast title_campos_obrigatorios ''Preencha a URL e a chave do Supabase.'' True"

definition toast_configuracao_salva :: effect where
  "toast_configuracao_salva =
     Toast (''Configura'' @ [CHR 0xE7, CHR 0xE3] @ ''o salva!'')
       ''Seu Supabase foi conectado com sucesso.'' False"

definition toast_desconectado :: effect where
  "toast_desconectado =
     Toast ''Desconectado''
       (''Seu Supabase foi desconectado. Voc'' @ [CHR 0xEA] @ '' pode conectar outro.'') False"

definition toast_atencao :: effect where
  "toast_atencao =
     Toast (''Aten'' @ [CHR 0xE7, CHR 0xE3] @ ''o'')
       ''Lembre-se de criar as tabelas meta_credentials, webhook_urls e events no seu Supabase.''
       False"

subsection \<open>The connection prober\<close>

text \<open>
  The pattern \<open>/^https:\/\/[a-z0-9-]+\.supabase\.co$/\<close>, without flags: the whole string
  is \<open>https://\<close>, then one or more characters of the class, then \<open>.supabase.co\<close>. The
  dot is not in the class, so the run of class characters after the scheme is the only
  candidate for the label.
\<close>

definition url_label_char :: "char \<Rightarrow> bool" where
  "url_label_char c = (c \<in> set ''abcdefghijklmnopqrstuvwxyz0123456789-'')"

definition urlPattern_test :: "string \<Rightarrow> bool" where
  "urlPattern_test u =
     (startsWith u ''https://'' \<and>
      takeWhile url_label_char (drop 8 u) \<noteq> [] \<and>
      dropWhile url_label_char (drop 8 u) = ''.supabase.co'')"

text \<open>
  What the awaited probe query gives back: a result with no error, a result whose
  \<open>error\<close> has a message, or an exception (an \<open>Error\<close> with a message) that the
  \<open>catch\<close> block receives.

  \<open>testConnection\<close> returns the state after its last setter call, the effects it had and
  its Boolean result. While the query is awaited the status is \<open>connecting\<close>; every
  path that passes that point sets the status again before it returns.
\<close>

datatype probe_response = NoError | ErrorResult string | Thrown string

definition testConnection ::
  "probe_response \<Rightarrow> string \<Rightarrow> string \<Rightarrow> csc_state \<Rightarrow> csc_state \<times> effect list \<times> bool" where
  "testConnection resp u k st =
     (if u = [] \<or> k = [] then (st\<lparr>connectionStatus := disconnected\<rparr>, [], False)
      else if \<not> urlPattern_test u
      then (st\<lparr>connectionError := Some msg_invalid_url, connectionStatus := error\<rparr>, [], False)
      else
        (let probe = [CreateClient u k, ExternalQuery ''_test_connection_''] in
         case resp of
           NoError \<Rightarrow> (st\<lparr>connectionError := None, connectionStatus := connected\<rparr>, probe, True)
         | ErrorResult m \<Rightarrow>
             if str_includes m ''Invalid API key''
             then (st\<lparr>connectionError := Some msg_invalid_key, connectionStatus := error\<rparr>,
                   probe, False)
             else (st\<lparr>connectionError := None, connectionStatus := connected\<rparr>, probe, True)
         | Thrown m \<Rightarrow>
             if str_includes m ''Invalid API key''
             then (st\<lparr>connectionError := Some msg_invalid_key, connectionStatus := error\<rparr>,
                   probe, False)
             else (st\<lparr>connectionError := None, connectionStatus := connected\<rparr>, probe, True)))"

subsection \<open>\<open>provisionTables\<close>\<close>

definition provisionTables :: "probe_response \<Rightarrow> string \<Rightarrow> string \<Rightarrow> effect list \<times> bool" where
  "provisionTables resp u k =
     (let query = [CreateClient u k, ExternalQuery ''meta_credentials''];
          done = [Console ''Client Supabase connected successfully'', toast_atencao] in
      case resp of
        NoError \<Rightarrow> (query @ done, True)
      | ErrorResult m \<Rightarrow>
          (query @
           (if \<not> str_includes m ''does not exist''
            then [Console ''Client Supabase connected, but tables may not exist yet'']
            else []) @ done, True)
      | Thrown m \<Rightarrow> (query @ [Console ''Error provisioning tables:''], False))"

subsection \<open>\<open>handleSave\<close> and \<open>handleDisconnect\<close>\<close>

text \<open>
  \<open>user\<close> is the signed-in user of \<open>useAuth\<close> (\<open>None\<close> when nobody is signed in), \<open>resp\<close>
  the answer to the probe, \<open>fault\<close> the answer to the update of \<open>profiles\<close>, and \<open>prov\<close>
  the answer to the query of \<open>provisionTables\<close>. The toast of a failed probe reads
  \<open>connectionError\<close> of the state the handler was created with.
\<close>

definition ClientSupabaseConfig_handleSave ::
  "uuid option \<Rightarrow> probe_response \<Rightarrow> string option \<Rightarrow> probe_response \<Rightarrow> csc_state \<Rightarrow> store
     \<Rightarrow> csc_state \<times> store \<times> effect list" where
  "ClientSupabaseConfig_handleSave user resp fault prov st db =
     (case user of
        None \<Rightarrow> (st, db, [])
      | Some uid \<Rightarrow>
          let u = url (csc_credentials st); k = key (csc_credentials st) in
          if u = [] \<or> k = [] then (st, db, [toast_preencha])
          else
            (case testConnection resp u k (st\<lparr>csc_isSaving := True\<rparr>) of
               (st1, probe, isConnected) \<Rightarrow>
                 if \<not> isConnected
                 then (st1\<lparr>csc_isSaving := False\<rparr>, db,
                       probe @ [Toast title_falha_na_conexao
                                  (or_else (connectionError st) msg_cannot_connect) True])
                 else
                   (case update_profiles fault uid (Some u) (Some k) db of
                      (Some m, db1) \<Rightarrow>
                        (st1\<lparr>csc_isSaving := False\<rparr>, db1,
                         probe @ [ProfilesUpdate uid (Some u) (Some k),
                                  Toast ''Erro ao salvar'' m True])
                    | (None, db1) \<Rightarrow>
                        (st1\<lparr>hasExistingConfig := True, csc_isSaving := False\<rparr>, db1,
                         probe @ [ProfilesUpdate uid (Some u) (Some k)] @
                         fst (provisionTables prov u k) @ [toast_configuracao_salva]))))"

definition ClientSupabaseConfig_handleDisconnect ::
  "uuid option \<Rightarrow> string option \<Rightarrow> csc_state \<Rightarrow> store \<Rightarrow> csc_state \<times> store \<times> effect list" where
  "ClientSupabaseConfig_handleDisconnect user fault st db =
     (case user of
        None \<Rightarrow> (st, db, [])
      | Some uid \<Rightarrow>
          (case update_profiles fault uid None None db of
             (Some m, db1) \<Rightarrow>
               (st\<lparr>csc_isSaving := False\<rparr>, db1,
                [ProfilesUpdate uid None None, Toast ''Erro ao desconectar'' m True])
           | (None, db1) \<Rightarrow>
               (st\<lparr>csc_credentials := \<lparr>url = [], key = []\<rparr>, connectionStatus := disconnected,
                   connectionError := None, hasExistingConfig := False, csc_isSaving := False\<rparr>,
                db1, [ProfilesUpdate uid None None, toast_desconectado])))"

subsection \<open>The two effects of the component\<close>

text \<open>
  The body of the debounced effect, run once the fields have been quiet for 500 ms (the
  timer itself is outside the model), and the load of the stored pointer on mount
  (\<open>maybeSingle\<close> on the key column \<open>id\<close>; a failed request gives no data).
\<close>

definition autoTest :: "probe_response \<Rightarrow> csc_state \<Rightarrow> csc_state \<times> effect list" where
  "autoTest resp st =
     (let u = url (csc_credentials st); k = key (csc_credentials st) in
      if u \<noteq> [] \<and> k \<noteq> []
      then (case testConnection resp u k st of (st1, fx, ok) \<Rightarrow> (st1, fx))
      else (st\<lparr>connectionStatus := disconnected, connectionError := None\<rparr>, []))"

definition fetchProfile :: "uuid option \<Rightarrow> string option \<Rightarrow> csc_state \<Rightarrow> store \<Rightarrow> csc_state" where
  "fetchProfile user fault st db =
     (case user of
        None \<Rightarrow> st
      | Some uid \<Rightarrow>
          (case fault of
             Some m \<Rightarrow> st
           | None \<Rightarrow>
               (case filter (\<lambda>p. p_id p = uid) (profiles db) of
                  [p] \<Rightarrow>
                    (case (client_supabase_url p, client_supabase_key p) of
                       (Some u, Some k) \<Rightarrow>
                         if u \<noteq> [] \<and> k \<noteq> []
                         then st\<lparr>csc_credentials := \<lparr>url = u, key = k\<rparr>, hasExistingConfig := True\<rparr>
                         else st
                     | _ \<Rightarrow> st)
                | _ \<Rightarrow> st)))"

section \<open>The page \<open>Configuracao\<close>\<close>

record MetaCredentials =
  pixel_id :: string
  page_id :: string
  access_token :: string

record cfg_state =
  cfg_credentials :: MetaCredentials
  showToken :: bool
  cfg_isSaving :: bool
  isTesting :: bool
  cfg_webhookUrl :: "string option"
  copied :: bool
  hasExistingCredentials :: bool

definition cfg_initial :: cfg_state where
  "cfg_initial =
     \<lparr>cfg_credentials = \<lparr>pixel_id = [], page_id = [], access_token = []\<rparr>, showToken = False,
      cfg_isSaving = False, isTesting = False, cfg_webhookUrl = None, copied = False,
      hasExistingCredentials = False\<rparr>"

definition toast_pixel_obrigatorios :: effect where
  "toast_pixel_obrigatorios =
     Toast title_campos_obrigatorios
       (''Pixel ID e Access Token s'' @ [CHR 0xE3] @ ''o obrigat'' @ [CHR 0xF3] @ ''rios.'') True"

definition toast_salvo :: effect where
  "toast_salvo = Toast ''Salvo com sucesso!'' ''Suas credenciais foram atualizadas.'' False"

text \<open>
  The effect run when the page is mounted: \<open>select * ... eq('user_id', uid).maybeSingle()\<close>
  gives the row when there is exactly one, and no data otherwise (no row, several rows,
  or a failed request, \<open>fault\<close>).
\<close>

definition fetchCredentials :: "uuid option \<Rightarrow> string option \<Rightarrow> cfg_state \<Rightarrow> store \<Rightarrow> cfg_state" where
  "fetchCredentials user fault st db =
     (case user of
        None \<Rightarrow> st
      | Some uid \<Rightarrow>
          (case fault of
             Some m \<Rightarrow> st
           | None \<Rightarrow>
               (case filter (\<lambda>r. mc_user_id r = uid) (meta_credentials db) of
                  [r] \<Rightarrow>
                    st\<lparr>cfg_credentials :=
                         \<lparr>pixel_id = mc_pixel_id r, page_id = or_else (mc_page_id r) [],
                          access_token = mc_access_token r\<rparr>,
                       hasExistingCredentials := True\<rparr>
                | _ \<Rightarrow> st)))"

definition fetchWebhook :: "uuid option \<Rightarrow> string option \<Rightarrow> cfg_state \<Rightarrow> store \<Rightarrow> cfg_state" where
  "fetchWebhook user fault st db =
     (case user of
        None \<Rightarrow> st
      | Some uid \<Rightarrow>
          (case fault of
             Some m \<Rightarrow> st
           | None \<Rightarrow>
               (case filter (\<lambda>r. wh_user_id r = uid) (select_webhook_urls db (Some uid)) of
                  [r] \<Rightarrow> st\<lparr>cfg_webhookUrl := Some (wh_webhook_url r)\<rparr>
                | _ \<Rightarrow> st)))"

text \<open>\<open>handleSave\<close>: \<open>fault\<close> is the answer to the one request the handler sends.\<close>

definition Configuracao_handleSave ::
  "uuid option \<Rightarrow> string option \<Rightarrow> cfg_state \<Rightarrow> store \<Rightarrow> cfg_state \<times> store \<times> effect list" where
  "Configuracao_handleSave user fault st db =
     (case user of
        None \<Rightarrow> (st, db, [])
      | Some uid \<Rightarrow>
          let c = cfg_credentials st in
          if pixel_id c = [] \<or> access_token c = [] then (st, db, [toast_pixel_obrigatorios])
          else if hasExistingCredentials st
          then
            (case update_meta_credentials fault uid (pixel_id c) (or_null (page_id c))
                    (access_token c) db of
               (Some m, db1) \<Rightarrow>
                 (st\<lparr>cfg_isSaving := False\<rparr>, db1,
                  [MetaCredentialsUpdate uid (pixel_id c) (or_null (page_id c)) (access_token c),
                   Toast ''Erro ao salvar'' m True])
             | (None, db1) \<Rightarrow>
                 (st\<lparr>cfg_isSaving := False\<rparr>, db1,
                  [MetaCredentialsUpdate uid (pixel_id c) (or_null (page_id c)) (access_token c),
                   toast_salvo]))
          else
            (case insert_meta_credentials fault uid (pixel_id c) (or_null (page_id c))
                    (access_token c) db of
               (Some m, db1) \<Rightarrow>
                 (st\<lparr>cfg_isSaving := False\<rparr>, db1,
                  [MetaCredentialsInsert uid (pixel_id c) (or_null (page_id c)) (access_token c),
                   Toast ''Erro ao salvar'' m True])
             | (None, db1) \<Rightarrow>
                 (st\<lparr>hasExistingCredentials := True, cfg_isSaving := False\<rparr>, db1,
                  [MetaCredentialsInsert uid (pixel_id c) (or_null (page_id c)) (access_token c),
                   toast_salvo])))"

section \<open>The page \<open>AdminWebhooks\<close>\<close>

record Profile =
  pr_id :: string
  pr_email :: "string option"

record WebhookUrl =
  w_id :: string
  w_user_id :: string
  w_webhook_url :: string
  w_created_at :: "string option"
  w_profiles :: "Profile option"

record aw_state =
  aw_profiles :: "Profile list"
  webhooks :: "WebhookUrl list"
  selectedUserId :: string
  aw_webhookUrl :: string
  aw_isSaving :: bool
  isLoading :: bool

definition aw_initial :: aw_state where
  "aw_initial =
     \<lparr>aw_profiles = [], webhooks = [], selectedUserId = [], aw_webhookUrl = [],
      aw_isSaving = False, isLoading = True\<rparr>"

definition toast_selecione :: effect where
  "toast_selecione =
     Toast title_campos_obrigatorios
       (''Selecione um usu'' @ [CHR 0xE1] @ ''rio e insira a URL do webhook.'') True"

definition title_ja_possui :: string where
  "title_ja_possui = ''Usu'' @ [CHR 0xE1] @ ''rio j'' @ [CHR 0xE1] @ '' possui webhook''"

definition toast_ja_possui :: effect where
  "toast_ja_possui =
     Toast title_ja_possui
       (''Este usu'' @ [CHR 0xE1] @ ''rio j'' @ [CHR 0xE1] @
        '' tem um webhook cadastrado. Delete o existente primeiro.'') True"

definition toast_adicionado :: effect where
  "toast_adicionado = Toast ''Webhook adicionado!'' ''O webhook foi cadastrado com sucesso.'' False"

definition toast_removido :: effect where
  "toast_removido = Toast ''Webhook removido!'' ''O webhook foi removido com sucesso.'' False"

text \<open>
  What the component returns. The hook \<open>useAdmin\<close> is not among the sources: its two
  results, \<open>isAdmin\<close> and \<open>loading\<close>, are parameters.
\<close>

datatype aw_view = LoadingSpinner | Navigate string | AdminPanel

definition AdminWebhooks_render :: "bool \<Rightarrow> bool \<Rightarrow> aw_view" where
  "AdminWebhooks_render adminLoading isAdmin =
     (if adminLoading then LoadingSpinner
      else if \<not> isAdmin then Navigate ''/dashboard''
      else AdminPanel)"

text \<open>
  The policy \<open>Admins can view all profiles\<close> of the migration. Modelled from the spec: the
  policy that lets the owner read the own profile is declared outside the sources; the
  data model keys it on \<open>id = current_user\<close>.
\<close>

definition profile_select_policy :: "store \<Rightarrow> uuid option \<Rightarrow> profiles_row \<Rightarrow> bool" where
  "profile_select_policy db uid row =
     (uid = Some (p_id row) \<or> has_role (user_roles db) uid (Some role_admin))"

definition to_Profile :: "profiles_row \<Rightarrow> Profile" where
  "to_Profile row = \<lparr>pr_id = p_id row, pr_email = p_email row\<rparr>"

definition to_WebhookUrl :: "webhook_urls_row \<Rightarrow> Profile option \<Rightarrow> WebhookUrl" where
  "to_WebhookUrl row p =
     \<lparr>w_id = wh_id row, w_user_id = wh_user_id row, w_webhook_url = wh_webhook_url row,
      w_created_at = wh_created_at row, w_profiles = p\<rparr>"

text \<open>
  The effect \<open>fetchData\<close>, run for the session user \<open>uid\<close>. The two \<open>ORDER BY\<close> clauses are
  evaluated by the store: \<open>by_email\<close> and \<open>by_created_at_desc\<close> stand for the order it
  gives. \<open>f1\<close> and \<open>f2\<close> are the answers to the two requests; a failed request comes
  back as a result with an error and no data, and the effect goes on. An empty array is
  truthy, so it is stored like any other.
\<close>

definition fetchData ::
  "bool \<Rightarrow> uuid option \<Rightarrow> string option \<Rightarrow> string option \<Rightarrow> (Profile list \<Rightarrow> Profile list)
     \<Rightarrow> (webhook_urls_row list \<Rightarrow> webhook_urls_row list) \<Rightarrow> aw_state \<Rightarrow> store
     \<Rightarrow> aw_state \<times> effect list" where
  "fetchData isAdmin uid f1 f2 by_email by_created_at_desc st db =
     (if \<not> isAdmin then (st, [])
      else
        (let profilesData =
               (case f1 of
                  Some m \<Rightarrow> None
                | None \<Rightarrow>
                    Some (by_email (map to_Profile (filter (profile_select_policy db uid) (profiles db)))));
             st1 = (case profilesData of None \<Rightarrow> st | Some ps \<Rightarrow> st\<lparr>aw_profiles := ps\<rparr>);
             webhooksData =
               (case f2 of
                  Some m \<Rightarrow> None
                | None \<Rightarrow> Some (by_created_at_desc (select_webhook_urls db uid)));
             st2 =
               (case webhooksData of
                  None \<Rightarrow> st1
                | Some ws \<Rightarrow>
                    st1\<lparr>webhooks :=
                          map (\<lambda>w. to_WebhookUrl w
                                     (case profilesData of
                                        None \<Rightarrow> None
                                      | Some ps \<Rightarrow> find (\<lambda>p. pr_id p = wh_user_id w) ps)) ws\<rparr>)
         in (st2\<lparr>isLoading := False\<rparr>, [ProfilesSelectAll, WebhookUrlsSelectAll])))"

text \<open>
  \<open>handleAddWebhook\<close>, run for the session user \<open>uid\<close>; \<open>fault\<close> is a failure of the request
  outside the store's policies, \<open>new_id\<close> and \<open>now\<close> the defaults the store fills in.
\<close>

definition handleAddWebhook ::
  "uuid option \<Rightarrow> string option \<Rightarrow> uuid \<Rightarrow> string option \<Rightarrow> aw_state \<Rightarrow> store
     \<Rightarrow> aw_state \<times> store \<times> effect list" where
  "handleAddWebhook uid fault new_id now st db =
     (if selectedUserId st = [] \<or> aw_webhookUrl st = [] then (st, db, [toast_selecione])
      else
        (case find (\<lambda>w. w_user_id w = selectedUserId st) (webhooks st) of
           Some existingWebhook \<Rightarrow> (st, db, [toast_ja_possui])
         | None \<Rightarrow>
             (let req = WebhookUrlsInsert (selectedUserId st) (aw_webhookUrl st) True in
              case fault of
                Some m \<Rightarrow> (st\<lparr>aw_isSaving := False\<rparr>, db, [req, Toast ''Erro ao adicionar'' m True])
              | None \<Rightarrow>
                  (case insert_webhook_urls uid new_id now (selectedUserId st) (aw_webhookUrl st)
                          True db of
                     (Inl m, db1) \<Rightarrow>
                       (st\<lparr>aw_isSaving := False\<rparr>, db1, [req, Toast ''Erro ao adicionar'' m True])
                   | (Inr row, db1) \<Rightarrow>
                       (st\<lparr>webhooks :=
                             to_WebhookUrl row
                               (find (\<lambda>p. pr_id p = selectedUserId st) (aw_profiles st)) #
                             webhooks st,
                           selectedUserId := [], aw_webhookUrl := [], aw_isSaving := False\<rparr>,
                        db1, [req, toast_adicionado])))))"

definition handleDeleteWebhook ::
  "uuid option \<Rightarrow> string option \<Rightarrow> string \<Rightarrow> aw_state \<Rightarrow> store \<Rightarrow> aw_state \<times> store \<times> effect list" where
  "handleDeleteWebhook uid fault webhookId st db =
     (case fault of
        Some m \<Rightarrow> (st, db, [WebhookUrlsDelete webhookId, Toast ''Erro ao remover'' m True])
      | None \<Rightarrow>
          (st\<lparr>webhooks := filter (\<lambda>w. w_id w \<noteq> webhookId) (webhooks st)\<rparr>,
           delete_webhook_urls uid webhookId db,
           [WebhookUrlsDelete webhookId, toast_removido]))"

section \<open>Example data\<close>

text \<open>
  A small store used to run the handlers on concrete inputs: two users with a profile
  and a webhook each, one of them with Meta credentials, and an administrator \<open>a1\<close>.
\<close>

definition example_store :: store where
  "example_store =
     \<lparr>profiles =
        [\<lparr>p_id = ''u1'', p_email = Some ''u1@example.com'',
          client_supabase_url = Some ''https://abc123.supabase.co'',
          client_supabase_key = Some ''validlookingkey''\<rparr>,
         \<lparr>p_id = ''u2'', p_email = None,
          client_supabase_url = Some ''https://other.supabase.co'',
          client_supabase_key = Some ''otherkey''\<rparr>],
      meta_credentials =
        [\<lparr>mc_user_id = ''u1'', mc_pixel_id = ''111'', mc_page_id = None, mc_access_token = ''tok''\<rparr>],
      webhook_urls =
        [\<lparr>wh_id = ''w1'', wh_user_id = ''u1'', wh_webhook_url = ''https://hook.example.com/x'',
          wh_created_at = Some ''2026-02-05'', created_by_admin = True\<rparr>,
         \<lparr>wh_id = ''w2'', wh_user_id = ''u2'', wh_webhook_url = ''https://hook.example.com/y'',
          wh_created_at = Some ''2026-02-06'', created_by_admin = True\<rparr>],
      user_roles =
        [\<lparr>ur_user_id = ''u1'', ur_role = role_user\<rparr>, \<lparr>ur_user_id = ''a1'', ur_role = role_admin\<rparr>]\<rparr>"

definition example_listing :: "WebhookUrl list" where
  "example_listing =
     [\<lparr>w_id = ''w1'', w_user_id = ''u1'', w_webhook_url = ''https://hook.example.com/x'',
       w_created_at = Some ''2026-02-05'', w_profiles = None\<rparr>]"


section \<open>Strings: the matchers compute what the patterns mean\<close>

lemma startsWith_iff: "startsWith s p \<longleftrightarrow> (\<exists>t. s = p @ t)"
  by (induction s p rule: startsWith.induct) auto

lemma str_includes_iff: "str_includes s p \<longleftrightarrow> (\<exists>a b. s = a @ p @ b)"
proof (induction s)
  case Nil
  then show ?case by auto
next
  case (Cons c cs)
  show ?case
  proof
    assume "str_includes (c # cs) p"
    then consider "startsWith (c # cs) p" | "str_includes cs p" by auto
    then show "\<exists>a b. c # cs = a @ p @ b"
    proof cases
      case 1
      then obtain t where "c # cs = p @ t" by (auto simp: startsWith_iff)
      then have "c # cs = [] @ p @ t" by simp
      then show ?thesis by blast
    next
      case 2
      then obtain a b where "cs = a @ p @ b" using Cons.IH by blast
      then have "c # cs = (c # a) @ p @ b" by simp
      then show ?thesis by blast
    qed
  next
    assume "\<exists>a b. c # cs = a @ p @ b"
    then obtain a b where ab: "c # cs = a @ p @ b" by blast
    show "str_includes (c # cs) p"
    proof (cases a)
      case Nil
      then have "startsWith (c # cs) p" using ab by (auto simp: startsWith_iff)
      then show ?thesis by simp
    next
      case (Cons x xs)
      then have "cs = xs @ p @ b" using ab by simp
      then have "str_includes cs p" using Cons.IH by blast
      then show ?thesis by simp
    qed
  qed
qed

text \<open>
  The URL test accepts exactly the strings \<open>https://<label>.supabase.co\<close> with a
  non-empty label of lowercase letters, digits and hyphens.
\<close>

lemma urlPattern_test_iff:
  "urlPattern_test u \<longleftrightarrow>
     (\<exists>l. l \<noteq> [] \<and> list_all url_label_char l \<and> u = ''https://'' @ l @ ''.supabase.co'')"
proof
  assume t: "urlPattern_test u"
  define r where "r = drop 8 u"
  from t obtain s where s: "u = ''https://'' @ s"
    by (auto simp: urlPattern_test_def startsWith_iff)
  then have rs: "r = s" by (simp add: r_def)
  have "r = takeWhile url_label_char r @ dropWhile url_label_char r" by simp
  moreover have "dropWhile url_label_char r = ''.supabase.co''"
    and "takeWhile url_label_char r \<noteq> []"
    using t by (auto simp: urlPattern_test_def r_def)
  moreover have "list_all url_label_char (takeWhile url_label_char r)"
    by (simp add: list_all_iff) (meson set_takeWhileD)
  ultimately show "\<exists>l. l \<noteq> [] \<and> list_all url_label_char l \<and> u = ''https://'' @ l @ ''.supabase.co''"
    using s rs by metis
next
  assume "\<exists>l. l \<noteq> [] \<and> list_all url_label_char l \<and> u = ''https://'' @ l @ ''.supabase.co''"
  then obtain l where l: "l \<noteq> []" "list_all url_label_char l"
    "u = ''https://'' @ l @ ''.supabase.co''"
    by blast
  have nd: "\<not> url_label_char CHR ''.''" by (simp add: url_label_char_def)
  have d: "drop 8 u = l @ ''.supabase.co''" using l(3) by simp
  have tw: "takeWhile url_label_char (l @ ''.supabase.co'') = l"
    using l(2) nd by (simp add: list_all_iff)
  have dw: "dropWhile url_label_char (l @ ''.supabase.co'') = ''.supabase.co''"
    using l(2) nd by (simp add: list_all_iff)
  have sw: "startsWith u ''https://''" using l(3) by (simp add: startsWith_iff)
  show "urlPattern_test u"
    unfolding urlPattern_test_def using sw tw dw d l(1) by simp
qed

section \<open>Role policy\<close>

lemma has_role_iff_row:
  "has_role rows u ro \<longleftrightarrow>
     filter (\<lambda>r. Some (ur_user_id r) = u \<and> Some (ur_role r) = ro) rows \<noteq> []"
  by (simp add: has_role_def list_ex_iff filter_empty_conv)

lemma has_role_null: "has_role rows None ro = False" "has_role rows u None = False"
  by (simp_all add: has_role_def list_ex_iff)

text \<open>
  Claim C2. For every pair of a user id and a role, \<open>has_role\<close> is \<open>false\<close> when the table
  \<open>user_roles\<close> holds no row with that user id and that role. The function is total and
  its value is a Boolean, also for a \<open>NULL\<close> argument: a missing role is the answer
  \<open>false\<close>, never an error.
\<close>

theorem has_role_default_deny:
  assumes "filter (\<lambda>r. Some (ur_user_id r) = u \<and> Some (ur_role r) = ro) rows = []"
  shows "has_role rows u ro = False"
  using assms by (simp add: has_role_iff_row)

theorem has_role_default_deny_witness:
  "filter (\<lambda>r. Some (ur_user_id r) = Some ''u1'' \<and> Some (ur_role r) = Some role_admin)
     (user_roles example_store) = []
   \<and> has_role (user_roles example_store) (Some ''u1'') (Some role_admin) = False"
proof -
  have none: "filter (\<lambda>r. Some (ur_user_id r) = Some ''u1'' \<and> Some (ur_role r) = Some role_admin)
     (user_roles example_store) = []"
    by (simp add: example_store_def)
  show ?thesis
    using none has_role_default_deny [OF none] by simp
qed

section \<open>The connection prober\<close>

lemma testConnection_probe_sent:
  assumes "u \<noteq> []" and "k \<noteq> []" and "urlPattern_test u"
  shows "fst (snd (testConnection resp u k st)) =
           [CreateClient u k, ExternalQuery ''_test_connection_'']"
  using assms by (cases resp) (simp_all add: testConnection_def Let_def)

lemma testConnection_no_store_call:
  "filter is_store_call (fst (snd (testConnection resp u k st))) = []"
  by (cases resp) (simp_all add: testConnection_def Let_def)

lemma testConnection_no_toast:
  "filter is_toast (fst (snd (testConnection resp u k st))) = []"
  by (cases resp) (simp_all add: testConnection_def Let_def)

text \<open>
  Claim C3. Once the probe query has been sent (both fields filled in, the URL of the
  required shape), the answer decides the outcome: an error, returned or thrown, whose
  message contains \<open>Invalid API key\<close> gives the status \<open>error\<close> with the invalid-key
  message; every other error, and no error, gives the status \<open>connected\<close> with no error
  message. The prober returns \<open>true\<close> exactly when the status is \<open>connected\<close>.
\<close>

theorem probe_classification:
  assumes "u \<noteq> []" and "k \<noteq> []" and "urlPattern_test u"
  shows "connectionStatus (fst (testConnection resp u k st)) =
           (if \<exists>m a b. (resp = ErrorResult m \<or> resp = Thrown m) \<and> m = a @ ''Invalid API key'' @ b
            then error else connected)
         \<and> connectionError (fst (testConnection resp u k st)) =
           (if \<exists>m a b. (resp = ErrorResult m \<or> resp = Thrown m) \<and> m = a @ ''Invalid API key'' @ b
            then Some msg_invalid_key else None)
         \<and> snd (snd (testConnection resp u k st)) =
           (connectionStatus (fst (testConnection resp u k st)) = connected)"
proof (cases resp)
  case NoError
  then show ?thesis using assms by (simp add: testConnection_def Let_def)
next
  case (ErrorResult m)
  have "str_includes m ''Invalid API key'' \<longleftrightarrow> (\<exists>a b. m = a @ ''Invalid API key'' @ b)"
    by (rule str_includes_iff)
  then show ?thesis using assms ErrorResult by (simp add: testConnection_def Let_def)
next
  case (Thrown m)
  have "str_includes m ''Invalid API key'' \<longleftrightarrow> (\<exists>a b. m = a @ ''Invalid API key'' @ b)"
    by (rule str_includes_iff)
  then show ?thesis using assms Thrown by (simp add: testConnection_def Let_def)
qed

theorem probe_classification_witness:
  "connectionStatus
     (fst (testConnection (ErrorResult ''relation does not exist'') ''https://abc123.supabase.co''
             ''validlookingkey'' csc_initial)) = connected
   \<and> snd (snd (testConnection (ErrorResult ''relation does not exist'') ''https://abc123.supabase.co''
             ''validlookingkey'' csc_initial)) = True
   \<and> connectionStatus
     (fst (testConnection (ErrorResult ''Invalid API key'') ''https://abc123.supabase.co''
             ''validlookingkey'' csc_initial)) = error"
proof -
  have u: "urlPattern_test ''https://abc123.supabase.co''"
    by (simp add: urlPattern_test_def url_label_char_def)
  have n: "\<not> (\<exists>m a b. (ErrorResult ''relation does not exist'' = ErrorResult m \<or>
                       ErrorResult ''relation does not exist'' = Thrown m) \<and>
                      m = a @ ''Invalid API key'' @ b)"
    using str_includes_iff [of "''relation does not exist''" "''Invalid API key''"] by auto
  have y: "\<exists>m a b. (ErrorResult ''Invalid API key'' = ErrorResult m \<or>
                       ErrorResult ''Invalid API key'' = Thrown m) \<and>
                      m = a @ ''Invalid API key'' @ b"
    using str_includes_iff [of "''Invalid API key''" "''Invalid API key''"] by auto
  show ?thesis
    using probe_classification
        [of "''https://abc123.supabase.co''" "''validlookingkey''"
            "ErrorResult ''relation does not exist''" csc_initial, OF _ _ u]
      probe_classification
        [of "''https://abc123.supabase.co''" "''validlookingkey''"
            "ErrorResult ''Invalid API key''" csc_initial, OF _ _ u]
      n y
    by simp
qed

text \<open>
  Claim C4, as stated, fails: a URL that does not match the pattern gives the status
  \<open>disconnected\<close>, not \<open>error\<close>, when the URL or the key is empty, because the prober tests
  for an empty field first.
\<close>

theorem url_mismatch_counterexample:
  "\<not> urlPattern_test [] \<and>
   connectionStatus (fst (testConnection NoError [] ''validlookingkey'' csc_initial)) = disconnected \<and>
   \<not> urlPattern_test ''http://abc123.supabase.co'' \<and>
   connectionStatus (fst (testConnection NoError ''http://abc123.supabase.co'' [] csc_initial)) =
     disconnected"
  by (simp add: urlPattern_test_def testConnection_def csc_initial_def)

text \<open>
  Claim C4, amended. For every URL that does not match the pattern the prober returns
  \<open>false\<close> and makes no network call: no client is created and no query is sent. When the
  URL and the key are both non-empty the status is \<open>error\<close> with the URL-format message;
  when one of them is empty the status is \<open>disconnected\<close> and the error message is left
  as it was.
\<close>

theorem url_mismatch_no_network:
  assumes "\<not> urlPattern_test u"
  shows "testConnection resp u k st =
           (if u = [] \<or> k = [] then (st\<lparr>connectionStatus := disconnected\<rparr>, [], False)
            else (st\<lparr>connectionError := Some msg_invalid_url, connectionStatus := error\<rparr>,
                  [], False))
         \<and> filter is_network_call (fst (snd (testConnection resp u k st))) = []"
  using assms by (simp add: testConnection_def)

theorem url_mismatch_no_network_witness:
  "\<not> urlPattern_test ''http://abc123.supabase.co'' \<and>
   testConnection NoError ''http://abc123.supabase.co'' ''validlookingkey'' csc_initial =
     (csc_initial\<lparr>connectionError := Some msg_invalid_url, connectionStatus := error\<rparr>, [], False)"
proof -
  have n: "\<not> urlPattern_test ''http://abc123.supabase.co''"
    by (simp add: urlPattern_test_def)
  show ?thesis
    using url_mismatch_no_network [OF n, of NoError "''validlookingkey''" csc_initial] n by simp
qed

section \<open>Saving and disconnecting the external store\<close>

text \<open>
  The update of \<open>profiles\<close> is sent only after a probe that returned \<open>true\<close>: when the
  probe fails, the store is left as it was and no request reaches it.
\<close>

lemma handleSave_blocked_by_failed_probe:
  assumes "\<not> snd (snd (testConnection resp (url (csc_credentials st)) (key (csc_credentials st))
                        (st\<lparr>csc_isSaving := True\<rparr>)))"
  shows "fst (snd (ClientSupabaseConfig_handleSave user resp fault prov st db)) = db
         \<and> filter is_store_call (snd (snd (ClientSupabaseConfig_handleSave user resp fault prov st db))) = []"
proof (cases user)
  case None
  then show ?thesis by (simp add: ClientSupabaseConfig_handleSave_def)
next
  case (Some uid)
  obtain st1 probe ok where t:
    "testConnection resp (url (csc_credentials st)) (key (csc_credentials st))
       (st\<lparr>csc_isSaving := True\<rparr>) = (st1, probe, ok)"
    by (cases "testConnection resp (url (csc_credentials st)) (key (csc_credentials st))
                 (st\<lparr>csc_isSaving := True\<rparr>)") auto
  with assms have nok: "\<not> ok" by simp
  have p: "filter is_store_call probe = []"
    using testConnection_no_store_call
      [of resp "url (csc_credentials st)" "key (csc_credentials st)" "st\<lparr>csc_isSaving := True\<rparr>"] t
    by simp
  show ?thesis
    using Some t nok p
    by (simp add: ClientSupabaseConfig_handleSave_def Let_def toast_preencha_def)
qed

text \<open>
  After a failed probe the one toast of \<open>handleSave\<close> carries \<open>connectionError\<close> of the
  state the handler started from (or the fixed fallback text), whatever message the
  probe has just stored in the next state.
\<close>

lemma handleSave_failed_probe_toast:
  assumes "url (csc_credentials st) \<noteq> []" and "key (csc_credentials st) \<noteq> []"
      and "\<not> snd (snd (testConnection resp (url (csc_credentials st)) (key (csc_credentials st))
                        (st\<lparr>csc_isSaving := True\<rparr>)))"
  shows "filter is_toast (snd (snd (ClientSupabaseConfig_handleSave (Some uid) resp fault prov st db))) =
           [Toast title_falha_na_conexao (or_else (connectionError st) msg_cannot_connect) True]
         \<and> connectionError (fst (ClientSupabaseConfig_handleSave (Some uid) resp fault prov st db)) =
           connectionError (fst (testConnection resp (url (csc_credentials st))
                                   (key (csc_credentials st)) (st\<lparr>csc_isSaving := True\<rparr>)))"
proof -
  obtain st1 probe ok where t:
    "testConnection resp (url (csc_credentials st)) (key (csc_credentials st))
       (st\<lparr>csc_isSaving := True\<rparr>) = (st1, probe, ok)"
    by (cases "testConnection resp (url (csc_credentials st)) (key (csc_credentials st))
                 (st\<lparr>csc_isSaving := True\<rparr>)") auto
  with assms(3) have nok: "\<not> ok" by simp
  have p: "filter is_toast probe = []"
    using testConnection_no_toast
      [of resp "url (csc_credentials st)" "key (csc_credentials st)" "st\<lparr>csc_isSaving := True\<rparr>"] t
    by simp
  show ?thesis
    using assms(1,2) t nok p by (simp add: ClientSupabaseConfig_handleSave_def Let_def)
qed

text \<open>
  When the debounced test has already run on the same fields with the same answer, the
  state the handler starts from holds the message the probe will give again, and the
  toast shows it.
\<close>

lemma handleSave_toast_after_autoTest:
  assumes "url (csc_credentials st) \<noteq> []" and "key (csc_credentials st) \<noteq> []"
      and "\<not> snd (snd (testConnection resp (url (csc_credentials st)) (key (csc_credentials st))
                        (st\<lparr>csc_isSaving := True\<rparr>)))"
  shows "filter is_toast
           (snd (snd (ClientSupabaseConfig_handleSave (Some uid) resp fault prov
                        (fst (autoTest resp st)) db))) =
         [Toast title_falha_na_conexao
            (the (connectionError (fst (testConnection resp (url (csc_credentials st))
                                          (key (csc_credentials st)) st)))) True]
         \<and> connectionError (fst (testConnection resp (url (csc_credentials st))
                                    (key (csc_credentials st)) st)) \<noteq> None"
proof (cases "urlPattern_test (url (csc_credentials st))")
  case False
  then show ?thesis
    using assms(1,2)
    by (simp add: autoTest_def ClientSupabaseConfig_handleSave_def testConnection_def Let_def
          or_else_def msg_invalid_url_def)
next
  case True
  show ?thesis
  proof (cases resp)
    case NoError
    then show ?thesis using assms True by (simp add: testConnection_def Let_def)
  next
    case (ErrorResult m)
    then show ?thesis
      using assms True
      by (simp add: autoTest_def ClientSupabaseConfig_handleSave_def testConnection_def Let_def
            or_else_def msg_invalid_key_def split: if_splits)
  next
    case (Thrown m)
    then show ?thesis
      using assms True
      by (simp add: autoTest_def ClientSupabaseConfig_handleSave_def testConnection_def Let_def
            or_else_def msg_invalid_key_def split: if_splits)
  qed
qed

text \<open>
  Claim C6. The first half holds (lemma \<open>handleSave_blocked_by_failed_probe\<close>). The second
  half does not: on a fresh form (\<open>connectionError\<close> still \<open>null\<close>) the user enters a URL
  with the wrong scheme and a key and saves. The probe rejects the URL and stores the
  URL-format message, but the toast shows the fallback text, which is another string.
\<close>

theorem failed_probe_toast_is_stale:
  "connectionError (fst (ClientSupabaseConfig_handleSave (Some ''u1'') NoError None NoError
       (csc_initial\<lparr>csc_credentials := \<lparr>url = ''http://abc123.supabase.co'', key = ''validlookingkey''\<rparr>\<rparr>)
       example_store)) = Some msg_invalid_url
   \<and> filter is_toast (snd (snd (ClientSupabaseConfig_handleSave (Some ''u1'') NoError None NoError
       (csc_initial\<lparr>csc_credentials := \<lparr>url = ''http://abc123.supabase.co'', key = ''validlookingkey''\<rparr>\<rparr>)
       example_store))) = [Toast title_falha_na_conexao msg_cannot_connect True]
   \<and> msg_cannot_connect \<noteq> msg_invalid_url
   \<and> fst (snd (ClientSupabaseConfig_handleSave (Some ''u1'') NoError None NoError
       (csc_initial\<lparr>csc_credentials := \<lparr>url = ''http://abc123.supabase.co'', key = ''validlookingkey''\<rparr>\<rparr>)
       example_store)) = example_store"
  by (simp add: ClientSupabaseConfig_handleSave_def testConnection_def urlPattern_test_def
        csc_initial_def or_else_def msg_cannot_connect_def msg_invalid_url_def)

lemma handleDisconnect_frame:
  "meta_credentials (fst (snd (ClientSupabaseConfig_handleDisconnect user fault st db))) =
     meta_credentials db
   \<and> webhook_urls (fst (snd (ClientSupabaseConfig_handleDisconnect user fault st db))) =
     webhook_urls db
   \<and> user_roles (fst (snd (ClientSupabaseConfig_handleDisconnect user fault st db))) =
     user_roles db"
  by (simp add: ClientSupabaseConfig_handleDisconnect_def update_profiles_def split: option.splits)

lemma handleDisconnect_request:
  "filter is_store_call (snd (snd (ClientSupabaseConfig_handleDisconnect (Some uid) fault st db))) =
     [ProfilesUpdate uid None None]"
  by (simp add: ClientSupabaseConfig_handleDisconnect_def update_profiles_def toast_desconectado_def
        split: option.splits)

lemma handleDisconnect_profiles:
  "profiles (fst (snd (ClientSupabaseConfig_handleDisconnect (Some uid) None st db))) =
     map (\<lambda>p. if p_id p = uid
               then p\<lparr>client_supabase_url := None, client_supabase_key := None\<rparr> else p)
       (profiles db)"
  by (simp add: ClientSupabaseConfig_handleDisconnect_def update_profiles_def)

lemma cleared_profile:
  assumes "p \<in> set (map (\<lambda>p. if p_id p = uid
                              then p\<lparr>client_supabase_url := None, client_supabase_key := None\<rparr>
                              else p) ps)"
      and "p_id p = uid"
  shows "client_supabase_url p = None \<and> client_supabase_key p = None"
proof -
  from assms(1) obtain q where q: "q \<in> set ps"
    and p: "p = (if p_id q = uid
                 then q\<lparr>client_supabase_url := None, client_supabase_key := None\<rparr> else q)"
    by auto
  show ?thesis
  proof (cases "p_id q = uid")
    case True
    with p show ?thesis by simp
  next
    case False
    with p assms(2) show ?thesis by simp
  qed
qed

lemma same_profile_ids:
  "map p_id (map (\<lambda>p. if p_id p = uid
                       then p\<lparr>client_supabase_url := a, client_supabase_key := b\<rparr> else p) ps) =
     map p_id ps"
  by (induction ps) simp_all

lemma other_profiles_kept:
  "filter (\<lambda>p. p_id p \<noteq> uid)
     (map (\<lambda>p. if p_id p = uid
               then p\<lparr>client_supabase_url := a, client_supabase_key := b\<rparr> else p) ps) =
   filter (\<lambda>p. p_id p \<noteq> uid) ps"
  by (induction ps) simp_all

text \<open>
  Claim C8. A disconnect by the signed-in user \<open>uid\<close> sends one request to the store, the
  update of the profile with id \<open>uid\<close> that sets \<open>client_supabase_url\<close> and
  \<open>client_supabase_key\<close> to \<open>null\<close>. Once the store has run it, every profile row of that
  user has both fields empty, the same profile rows exist, and the rows of other users
  are as before. Whatever the answer to the request, the tables \<open>meta_credentials\<close> and
  \<open>webhook_urls\<close> are untouched.
\<close>

theorem disconnect_clears_pointer:
  "(\<forall>p \<in> set (profiles (fst (snd (ClientSupabaseConfig_handleDisconnect (Some uid) None st db)))).
      p_id p = uid \<longrightarrow> client_supabase_url p = None \<and> client_supabase_key p = None)
   \<and> map p_id (profiles (fst (snd (ClientSupabaseConfig_handleDisconnect (Some uid) None st db)))) =
       map p_id (profiles db)
   \<and> filter (\<lambda>p. p_id p \<noteq> uid)
         (profiles (fst (snd (ClientSupabaseConfig_handleDisconnect (Some uid) None st db)))) =
       filter (\<lambda>p. p_id p \<noteq> uid) (profiles db)
   \<and> filter is_store_call (snd (snd (ClientSupabaseConfig_handleDisconnect (Some uid) fault st db))) =
       [ProfilesUpdate uid None None]
   \<and> meta_credentials (fst (snd (ClientSupabaseConfig_handleDisconnect (Some uid) fault st db))) =
       meta_credentials db
   \<and> webhook_urls (fst (snd (ClientSupabaseConfig_handleDisconnect (Some uid) fault st db))) =
       webhook_urls db"
proof -
  have cleared:
    "\<forall>p \<in> set (profiles (fst (snd (ClientSupabaseConfig_handleDisconnect (Some uid) None st db)))).
       p_id p = uid \<longrightarrow> client_supabase_url p = None \<and> client_supabase_key p = None"
    unfolding handleDisconnect_profiles using cleared_profile by blast
  have ids:
    "map p_id (profiles (fst (snd (ClientSupabaseConfig_handleDisconnect (Some uid) None st db)))) =
       map p_id (profiles db)"
    unfolding handleDisconnect_profiles by (rule same_profile_ids)
  have others:
    "filter (\<lambda>p. p_id p \<noteq> uid)
         (profiles (fst (snd (ClientSupabaseConfig_handleDisconnect (Some uid) None st db)))) =
       filter (\<lambda>p. p_id p \<noteq> uid) (profiles db)"
    unfolding handleDisconnect_profiles by (rule other_profiles_kept)
  have frame1:
    "meta_credentials (fst (snd (ClientSupabaseConfig_handleDisconnect (Some uid) fault st db))) =
       meta_credentials db"
    by (simp add: handleDisconnect_frame)
  have frame2:
    "webhook_urls (fst (snd (ClientSupabaseConfig_handleDisconnect (Some uid) fault st db))) =
       webhook_urls db"
    by (simp add: handleDisconnect_frame)
  from cleared ids others handleDisconnect_request [of uid fault st db] frame1 frame2
  show ?thesis by (intro conjI)
qed

theorem disconnect_clears_pointer_witness:
  "profiles (fst (snd (ClientSupabaseConfig_handleDisconnect (Some ''u1'') None csc_initial
                         example_store))) =
     [\<lparr>p_id = ''u1'', p_email = Some ''u1@example.com'', client_supabase_url = None,
       client_supabase_key = None\<rparr>,
      \<lparr>p_id = ''u2'', p_email = None, client_supabase_url = Some ''https://other.supabase.co'',
       client_supabase_key = Some ''otherkey''\<rparr>]
   \<and> meta_credentials (fst (snd (ClientSupabaseConfig_handleDisconnect (Some ''u1'') None csc_initial
                                   example_store))) = meta_credentials example_store
   \<and> webhook_urls (fst (snd (ClientSupabaseConfig_handleDisconnect (Some ''u1'') None csc_initial
                               example_store))) = webhook_urls example_store"
proof -
  have p: "profiles (fst (snd (ClientSupabaseConfig_handleDisconnect (Some ''u1'') None csc_initial
                         example_store))) =
     [\<lparr>p_id = ''u1'', p_email = Some ''u1@example.com'', client_supabase_url = None,
       client_supabase_key = None\<rparr>,
      \<lparr>p_id = ''u2'', p_email = None, client_supabase_url = Some ''https://other.supabase.co'',
       client_supabase_key = Some ''otherkey''\<rparr>]"
    by (simp add: ClientSupabaseConfig_handleDisconnect_def update_profiles_def example_store_def)
  from disconnect_clears_pointer [of "''u1''" csc_initial example_store None]
  have "meta_credentials (fst (snd (ClientSupabaseConfig_handleDisconnect (Some ''u1'') None csc_initial
                                   example_store))) = meta_credentials example_store"
    and "webhook_urls (fst (snd (ClientSupabaseConfig_handleDisconnect (Some ''u1'') None csc_initial
                               example_store))) = webhook_urls example_store"
    by blast+
  with p show ?thesis by (intro conjI)
qed

section \<open>Saving the Meta credentials\<close>

text \<open>
  Claim C7. A signed-in user saves with an empty Pixel ID or an empty access token: the
  handler shows the required-fields toast and does nothing else. No request is sent,
  and the store and the component state are as they were.
\<close>

theorem empty_fields_rejected:
  assumes "pixel_id (cfg_credentials st) = [] \<or> access_token (cfg_credentials st) = []"
  shows "Configuracao_handleSave (Some uid) fault st db = (st, db, [toast_pixel_obrigatorios])
         \<and> filter is_store_call (snd (snd (Configuracao_handleSave (Some uid) fault st db))) = []"
  using assms by (simp add: Configuracao_handleSave_def Let_def toast_pixel_obrigatorios_def)

theorem empty_fields_rejected_witness:
  "Configuracao_handleSave (Some ''u1'') None
     (cfg_initial\<lparr>cfg_credentials := \<lparr>pixel_id = ''111'', page_id = [], access_token = []\<rparr>\<rparr>)
     example_store =
     (cfg_initial\<lparr>cfg_credentials := \<lparr>pixel_id = ''111'', page_id = [], access_token = []\<rparr>\<rparr>,
      example_store, [toast_pixel_obrigatorios])"
  using empty_fields_rejected
    [of "cfg_initial\<lparr>cfg_credentials := \<lparr>pixel_id = ''111'', page_id = [], access_token = []\<rparr>\<rparr>"
        "''u1''" None example_store]
  by simp

subsection \<open>The two paths of a valid save\<close>



lemma list_ex_map_update_mc:
  "list_ex (\<lambda>r. mc_user_id r = uid)
     (map (\<lambda>r. if mc_user_id r = uid
               then r\<lparr>mc_pixel_id := pixel, mc_page_id := page, mc_access_token := token\<rparr>
               else r) rows) =
   list_ex (\<lambda>r. mc_user_id r = uid) rows"
  by (induction rows) simp_all

lemma handleSave_update_path:
  assumes "pixel_id (cfg_credentials st) \<noteq> []" and "access_token (cfg_credentials st) \<noteq> []"
      and "hasExistingCredentials st"
  shows "Configuracao_handleSave (Some uid) None st db =
           (st\<lparr>cfg_isSaving := False\<rparr>,
            db\<lparr>meta_credentials :=
                 map (\<lambda>r. if mc_user_id r = uid
                           then r\<lparr>mc_pixel_id := pixel_id (cfg_credentials st),
                                  mc_page_id := or_null (page_id (cfg_credentials st)),
                                  mc_access_token := access_token (cfg_credentials st)\<rparr>
                           else r) (meta_credentials db)\<rparr>,
            [MetaCredentialsUpdate uid (pixel_id (cfg_credentials st))
               (or_null (page_id (cfg_credentials st))) (access_token (cfg_credentials st)),
             toast_salvo])"
  using assms by (simp add: Configuracao_handleSave_def Let_def update_meta_credentials_def)

lemma handleSave_insert_path:
  assumes "pixel_id (cfg_credentials st) \<noteq> []" and "access_token (cfg_credentials st) \<noteq> []"
      and "\<not> hasExistingCredentials st"
      and "\<not> list_ex (\<lambda>r. mc_user_id r = uid) (meta_credentials db)"
  shows "Configuracao_handleSave (Some uid) None st db =
           (st\<lparr>hasExistingCredentials := True, cfg_isSaving := False\<rparr>,
            db\<lparr>meta_credentials :=
                 meta_credentials db @
                   [\<lparr>mc_user_id = uid, mc_pixel_id = pixel_id (cfg_credentials st),
                     mc_page_id = or_null (page_id (cfg_credentials st)),
                     mc_access_token = access_token (cfg_credentials st)\<rparr>]\<rparr>,
            [MetaCredentialsInsert uid (pixel_id (cfg_credentials st))
               (or_null (page_id (cfg_credentials st))) (access_token (cfg_credentials st)),
             toast_salvo])"
  using assms by (simp add: Configuracao_handleSave_def Let_def insert_meta_credentials_def)

lemma single_row:
  assumes "list_ex (\<lambda>r. mc_user_id r = uid) rows"
      and "length (filter (\<lambda>r. mc_user_id r = uid) rows) \<le> 1"
  shows "\<exists>r. filter (\<lambda>r. mc_user_id r = uid) rows = [r] \<and> mc_user_id r = uid"
proof -
  from assms(1) have ne: "filter (\<lambda>r. mc_user_id r = uid) rows \<noteq> []"
    by (simp add: list_ex_iff filter_empty_conv)
  then obtain r rs where rr: "filter (\<lambda>r. mc_user_id r = uid) rows = r # rs"
    by (cases "filter (\<lambda>r. mc_user_id r = uid) rows") auto
  with assms(2) have "rs = []" by simp
  moreover have "r \<in> set (filter (\<lambda>r. mc_user_id r = uid) rows)" using rr by simp
  then have "mc_user_id r = uid" by simp
  ultimately show ?thesis using rr by simp
qed

lemma no_row:
  assumes "\<not> list_ex (\<lambda>r. mc_user_id r = uid) rows"
  shows "filter (\<lambda>r. mc_user_id r = uid) rows = []"
  using assms by (simp add: list_ex_iff filter_empty_conv)

text \<open>
  The flag \<open>hasExistingCredentials\<close> is the page's record of whether the store holds a row
  for the user. The load on mount sets it so, when the request is answered and the
  store holds at most one row for the user.
\<close>

lemma fetchCredentials_sync:
  assumes "\<not> hasExistingCredentials st"
      and "length (filter (\<lambda>r. mc_user_id r = uid) (meta_credentials db)) \<le> 1"
  shows "hasExistingCredentials (fetchCredentials (Some uid) None st db) =
           list_ex (\<lambda>r. mc_user_id r = uid) (meta_credentials db)"
proof (cases "list_ex (\<lambda>r. mc_user_id r = uid) (meta_credentials db)")
  case True
  then obtain r where "filter (\<lambda>r. mc_user_id r = uid) (meta_credentials db) = [r]"
    using single_row [OF True assms(2)] by blast
  then show ?thesis using True by (simp add: fetchCredentials_def)
next
  case False
  then show ?thesis using assms(1) no_row [OF False] by (simp add: fetchCredentials_def)
qed

text \<open>An accepted save of a valid triple keeps the flag in agreement with the store.\<close>

lemma handleSave_keeps_sync:
  assumes "pixel_id (cfg_credentials st) \<noteq> []" and "access_token (cfg_credentials st) \<noteq> []"
      and "hasExistingCredentials st = list_ex (\<lambda>r. mc_user_id r = uid) (meta_credentials db)"
  shows "hasExistingCredentials (fst (Configuracao_handleSave (Some uid) None st db)) =
           list_ex (\<lambda>r. mc_user_id r = uid)
             (meta_credentials (fst (snd (Configuracao_handleSave (Some uid) None st db))))"
proof (cases "hasExistingCredentials st")
  case True
  then have "list_ex (\<lambda>r. mc_user_id r = uid) (meta_credentials db)" using assms(3) by simp
  then show ?thesis
    using handleSave_update_path [OF assms(1,2) True, of uid db] True
    by (simp add: list_ex_map_update_mc)
next
  case False
  then have nr: "\<not> list_ex (\<lambda>r. mc_user_id r = uid) (meta_credentials db)"
    using assms(3) by simp
  show ?thesis
    using handleSave_insert_path [OF assms(1,2) False nr] by simp
qed



section \<open>Handlers without a signed-in user\<close>

text \<open>
  Claim C10. With nobody signed in, saving or disconnecting the external store and
  saving the Meta credentials return at once: the component state and the store are
  unchanged and the handler has no effect (no request, no probe, no toast).
\<close>

theorem no_user_no_effect:
  "ClientSupabaseConfig_handleSave None resp fault prov st db = (st, db, [])
   \<and> ClientSupabaseConfig_handleDisconnect None fault st db = (st, db, [])
   \<and> Configuracao_handleSave None fault st' db = (st', db, [])"
  by (simp add: ClientSupabaseConfig_handleSave_def ClientSupabaseConfig_handleDisconnect_def
        Configuracao_handleSave_def)

section \<open>The admin webhook manager\<close>

subsection \<open>What the store lets a caller without the role do\<close>

lemma select_webhook_urls_non_admin:
  assumes "\<not> has_role (user_roles db) caller (Some role_admin)"
  shows "select_webhook_urls db caller =
           filter (\<lambda>r. caller = Some (wh_user_id r)) (webhook_urls db)"
  unfolding select_webhook_urls_def
  by (rule filter_cong) (simp_all add: webhook_select_policy_def assms)

lemma insert_webhook_urls_non_admin:
  assumes "\<not> has_role (user_roles db) caller (Some role_admin)"
  shows "insert_webhook_urls caller new_id now user_id u by_admin db = (Inl rls_violation, db)"
  using assms by (simp add: insert_webhook_urls_def webhook_insert_policy_def)

lemma delete_webhook_urls_non_admin:
  assumes "\<not> has_role (user_roles db) caller (Some role_admin)"
  shows "delete_webhook_urls caller webhookId db = db"
  using assms by (simp add: delete_webhook_urls_def webhook_delete_policy_def)

lemma handleAddWebhook_non_admin:
  assumes "\<not> has_role (user_roles db) caller (Some role_admin)"
  shows "fst (snd (handleAddWebhook caller fault new_id now st db)) = db"
  using assms
  by (simp add: handleAddWebhook_def insert_webhook_urls_non_admin Let_def split: option.splits)

lemma handleDeleteWebhook_non_admin:
  assumes "\<not> has_role (user_roles db) caller (Some role_admin)"
  shows "fst (snd (handleDeleteWebhook caller fault webhookId st db)) = db"
  using assms
  by (simp add: handleDeleteWebhook_def delete_webhook_urls_non_admin split: option.splits)

text \<open>
  Claim C1. Take a caller for whom \<open>has_role(caller, admin)\<close> is false, and let the hook
  report \<open>isAdmin\<close> only for a holder of the role. The page never renders the admin
  panel: while the hook is loading it renders the spinner, and from then on the
  redirect to \<open>/dashboard\<close>; there is no view for a permission error. The page loads no
  listing. At the store, a listing requested by this caller holds only the caller's own
  rows, an insert is refused and a delete removes nothing, whatever the target row: the
  store is unchanged by \<open>handleAddWebhook\<close> and by \<open>handleDeleteWebhook\<close> run in the
  caller's session.
\<close>

theorem non_admin_locked_out:
  assumes "\<not> has_role (user_roles db) caller (Some role_admin)"
      and "isAdmin \<longrightarrow> has_role (user_roles db) caller (Some role_admin)"
  shows "AdminWebhooks_render adminLoading isAdmin =
           (if adminLoading then LoadingSpinner else Navigate ''/dashboard'')
         \<and> fetchData isAdmin caller f1 f2 by_email by_created_at_desc st db = (st, [])
         \<and> list_all (\<lambda>r. Some (wh_user_id r) = caller) (select_webhook_urls db caller)
         \<and> fst (snd (handleAddWebhook caller fault new_id now st db)) = db
         \<and> fst (snd (handleDeleteWebhook caller fault webhookId st db)) = db"
proof -
  from assms have na: "\<not> isAdmin" by blast
  have view: "AdminWebhooks_render adminLoading isAdmin =
           (if adminLoading then LoadingSpinner else Navigate ''/dashboard'')"
    using na by (simp add: AdminWebhooks_render_def)
  have fetch: "fetchData isAdmin caller f1 f2 by_email by_created_at_desc st db = (st, [])"
    using na by (simp add: fetchData_def)
  have listing: "list_all (\<lambda>r. Some (wh_user_id r) = caller) (select_webhook_urls db caller)"
    using assms(1) by (auto simp: select_webhook_urls_non_admin list_all_iff)
  show ?thesis
    using view fetch listing handleAddWebhook_non_admin [OF assms(1)]
      handleDeleteWebhook_non_admin [OF assms(1)]
    by simp
qed

theorem non_admin_locked_out_witness:
  "\<not> has_role (user_roles example_store) (Some ''u1'') (Some role_admin)
   \<and> AdminWebhooks_render False False = Navigate ''/dashboard''
   \<and> fetchData False (Some ''u1'') None None id id aw_initial example_store = (aw_initial, [])
   \<and> select_webhook_urls example_store (Some ''u1'') =
       [\<lparr>wh_id = ''w1'', wh_user_id = ''u1'', wh_webhook_url = ''https://hook.example.com/x'',
         wh_created_at = Some ''2026-02-05'', created_by_admin = True\<rparr>]
   \<and> fst (snd (handleAddWebhook (Some ''u1'') None ''w3'' None
                 (aw_initial\<lparr>selectedUserId := ''u2'', aw_webhookUrl := ''https://evil.example.com''\<rparr>)
                 example_store)) = example_store
   \<and> fst (snd (handleDeleteWebhook (Some ''u1'') None ''w2'' aw_initial example_store)) =
       example_store"
proof -
  have na: "\<not> has_role (user_roles example_store) (Some ''u1'') (Some role_admin)"
    by (simp add: example_store_def has_role_def)
  have sel: "select_webhook_urls example_store (Some ''u1'') =
       [\<lparr>wh_id = ''w1'', wh_user_id = ''u1'', wh_webhook_url = ''https://hook.example.com/x'',
         wh_created_at = Some ''2026-02-05'', created_by_admin = True\<rparr>]"
    by (simp add: select_webhook_urls_def webhook_select_policy_def example_store_def has_role_def)
  show ?thesis
    using na sel
      non_admin_locked_out [of example_store "Some ''u1''" False False, OF na]
    by simp
qed

subsection \<open>One webhook per user\<close>

text \<open>
  The listing a page loads as administrator holds a row of a user exactly when the
  store does, provided both requests are answered and the store's ordering only
  rearranges the rows.
\<close>

lemma fetchData_listing_mirrors_store:
  assumes "has_role (user_roles db) caller (Some role_admin)"
      and "\<And>rows. set (by_created_at_desc rows) = set rows"
  shows "list_ex (\<lambda>w. w_user_id w = u)
           (webhooks (fst (fetchData True caller None None by_email by_created_at_desc st db))) =
         list_ex (\<lambda>r. wh_user_id r = u) (webhook_urls db)"
proof -
  have sel: "select_webhook_urls db caller = webhook_urls db"
    unfolding select_webhook_urls_def
    using assms(1) by (simp add: webhook_select_policy_def)
  show ?thesis
    using assms(2) [of "webhook_urls db"]
    by (auto simp: fetchData_def Let_def sel list_ex_iff to_WebhookUrl_def)
qed

text \<open>
  The accepted path: an administrator selects a user with no webhook in the listing and
  enters a URL. The row is written with \<open>created_by_admin\<close> set and is put at the head
  of the listing.
\<close>

lemma handleAddWebhook_accepted:
  assumes "has_role (user_roles db) caller (Some role_admin)"
      and "selectedUserId st \<noteq> []" and "aw_webhookUrl st \<noteq> []"
      and "\<not> list_ex (\<lambda>w. w_user_id w = selectedUserId st) (webhooks st)"
  shows "webhook_urls (fst (snd (handleAddWebhook caller None new_id now st db))) =
           webhook_urls db @
             [\<lparr>wh_id = new_id, wh_user_id = selectedUserId st, wh_webhook_url = aw_webhookUrl st,
               wh_created_at = now, created_by_admin = True\<rparr>]
         \<and> w_user_id (hd (webhooks (fst (handleAddWebhook caller None new_id now st db)))) =
             selectedUserId st
         \<and> tl (webhooks (fst (handleAddWebhook caller None new_id now st db))) = webhooks st"
proof -
  from assms(4) have "find (\<lambda>w. w_user_id w = selectedUserId st) (webhooks st) = None"
    by (simp add: find_None_iff list_ex_iff)
  then show ?thesis
    using assms(1,2,3)
    by (simp add: handleAddWebhook_def insert_webhook_urls_def webhook_insert_policy_def Let_def
          to_WebhookUrl_def)
qed

text \<open>
  The check for an existing webhook reads the listing of the page: a row of the
  selected user there stops the handler before any request.
\<close>

lemma handleAddWebhook_listed:
  assumes "list_ex (\<lambda>w. w_user_id w = selectedUserId st) (webhooks st)"
  shows "handleAddWebhook uid fault new_id now st db =
           (st, db, [if selectedUserId st = [] \<or> aw_webhookUrl st = [] then toast_selecione
                     else toast_ja_possui])"
proof -
  from assms obtain w where "find (\<lambda>w. w_user_id w = selectedUserId st) (webhooks st) = Some w"
    by (cases "find (\<lambda>w. w_user_id w = selectedUserId st) (webhooks st)")
       (auto simp: find_None_iff list_ex_iff)
  then show ?thesis by (simp add: handleAddWebhook_def)
qed

text \<open>
  After an answered load by an administrator the listing holds the store's rows, so a
  user with a row in the store cannot be given a second one from that page.
\<close>

lemma handleAddWebhook_after_load:
  assumes "has_role (user_roles db) caller (Some role_admin)"
      and "\<And>rows. set (by_created_at_desc rows) = set rows"
      and "list_ex (\<lambda>r. wh_user_id r = u) (webhook_urls db)"
      and "u \<noteq> []" and "link \<noteq> []"
  shows "handleAddWebhook caller fault new_id now
           ((fst (fetchData True caller None None by_email by_created_at_desc st db))
              \<lparr>selectedUserId := u, aw_webhookUrl := link\<rparr>) db =
         ((fst (fetchData True caller None None by_email by_created_at_desc st db))
              \<lparr>selectedUserId := u, aw_webhookUrl := link\<rparr>, db, [toast_ja_possui])"
proof -
  let ?st = "(fst (fetchData True caller None None by_email by_created_at_desc st db))
              \<lparr>selectedUserId := u, aw_webhookUrl := link\<rparr>"
  have "list_ex (\<lambda>w. w_user_id w = u)
          (webhooks (fst (fetchData True caller None None by_email by_created_at_desc st db)))"
    using fetchData_listing_mirrors_store [OF assms(1,2), of u by_email st] assms(3) by simp
  then have "list_ex (\<lambda>w. w_user_id w = selectedUserId ?st) (webhooks ?st)" by simp
  from handleAddWebhook_listed [OF this, of caller fault new_id now db]
  show ?thesis using assms(4,5) by simp
qed

text \<open>
  Claim C5, as stated, fails, in two ways. First, the administrator \<open>a1\<close> selects the
  user \<open>u1\<close>, who has a webhook in the loaded listing, and leaves the URL field empty:
  the handler tests for an empty field first, so the toast is the required-fields one,
  not the one that says a webhook already exists. Second, the request for the webhooks
  fails when the page loads, so the listing stays empty although the store holds the
  row \<open>w1\<close> of \<open>u1\<close>: the handler finds nothing in the listing, sends the insert, and the
  store then holds two rows of \<open>u1\<close>.
\<close>

theorem existing_webhook_counterexample:
  "list_ex (\<lambda>w. w_user_id w = ''u1'') example_listing
   \<and> snd (snd (handleAddWebhook (Some ''a1'') None ''w3'' None
        (aw_initial\<lparr>webhooks := example_listing, selectedUserId := ''u1'', aw_webhookUrl := []\<rparr>)
        example_store)) = [toast_selecione]
   \<and> toast_selecione \<noteq> toast_ja_possui
   \<and> list_ex (\<lambda>r. wh_user_id r = ''u1'') (webhook_urls example_store)
   \<and> webhooks (fst (fetchData True (Some ''a1'') None (Some ''Failed to fetch'') id id aw_initial
                       example_store)) = []
   \<and> map wh_id (filter (\<lambda>r. wh_user_id r = ''u1'')
        (webhook_urls (fst (snd (handleAddWebhook (Some ''a1'') None ''w3'' None
           ((fst (fetchData True (Some ''a1'') None (Some ''Failed to fetch'') id id aw_initial
                    example_store))
              \<lparr>selectedUserId := ''u1'', aw_webhookUrl := ''https://hook.example.com/z''\<rparr>)
           example_store))))) = [''w1'', ''w3'']"
  by (simp add: handleAddWebhook_def fetchData_def Let_def aw_initial_def example_listing_def
        example_store_def insert_webhook_urls_def webhook_insert_policy_def has_role_def
        toast_selecione_def toast_ja_possui_def title_campos_obrigatorios_def title_ja_possui_def)

text \<open>
  Claim C5, amended. The check is made on the listing the page holds, not on the store.
  Whenever that listing holds a webhook of the selected user, \<open>handleAddWebhook\<close> sends
  nothing to the store and leaves the store and the component state as they were. Its
  one toast says that the user already has a webhook and that the existing one must be
  deleted first when a user is selected and a URL is entered; it is the required-fields
  toast when the user or the URL field is empty.
\<close>

theorem existing_webhook_rejected:
  assumes "list_ex (\<lambda>w. w_user_id w = selectedUserId st) (webhooks st)"
  shows "handleAddWebhook uid fault new_id now st db =
           (st, db, [if selectedUserId st = [] \<or> aw_webhookUrl st = [] then toast_selecione
                     else toast_ja_possui])
         \<and> filter is_store_call (snd (snd (handleAddWebhook uid fault new_id now st db))) = []"
  using handleAddWebhook_listed [OF assms, of uid fault new_id now db]
  by (simp add: toast_selecione_def toast_ja_possui_def)

theorem existing_webhook_rejected_witness:
  "handleAddWebhook (Some ''a1'') None ''w3'' None
        (aw_initial\<lparr>webhooks := example_listing, selectedUserId := ''u1'',
                     aw_webhookUrl := ''https://hook.example.com/z''\<rparr>) example_store
   = (aw_initial\<lparr>webhooks := example_listing, selectedUserId := ''u1'',
                   aw_webhookUrl := ''https://hook.example.com/z''\<rparr>,
      example_store, [toast_ja_possui])"
proof -
  have ex: "list_ex (\<lambda>w. w_user_id w = ''u1'') example_listing"
    by (simp add: example_listing_def)
  show ?thesis
    using ex existing_webhook_rejected
       [of "aw_initial\<lparr>webhooks := example_listing, selectedUserId := ''u1'',
                        aw_webhookUrl := ''https://hook.example.com/z''\<rparr>"
           "Some ''a1''" None "''w3''" None example_store]
    by simp
qed

end
